theory Spec2Isabelle
  imports Main "HOL-Library.Word"
begin

unbundle bit_operations_syntax

section \<open>Data model of the install task (src/src/fu-install-task.c)\<close>

subsection \<open>Errors\<close>

text \<open>
  A \<open>GError\<close> carries a domain, a code and a message. The install task raises errors of
  the domain \<open>FWUPD_ERROR\<close> with the six codes named below; the metadata queries and the
  keyring may hand it errors of other codes or of a foreign domain (the quark's name and
  the numeric code), which it only forwards or reads the message of.
\<close>

datatype FwupdError =
    FWUPD_ERROR_INTERNAL
  | FWUPD_ERROR_VERSION_NEWER
  | FWUPD_ERROR_VERSION_SAME
  | FWUPD_ERROR_INVALID_FILE
  | FWUPD_ERROR_NOT_FOUND
  | FWUPD_ERROR_NOT_SUPPORTED
  | FWUPD_ERROR_OTHER nat

datatype GErrorCode = FWUPD_ERROR FwupdError | FOREIGN_ERROR string int

record GError =
  code :: GErrorCode
  message :: string

definition g_set_error :: "FwupdError \<Rightarrow> string \<Rightarrow> GError" where
  "g_set_error c msg = \<lparr>code = FWUPD_ERROR c, message = msg\<rparr>"

definition g_prefix_error :: "GError \<Rightarrow> string \<Rightarrow> GError" where
  "g_prefix_error e prefix = e\<lparr>message := prefix @ message e\<rparr>"

definition g_error_matches :: "GError \<Rightarrow> FwupdError \<Rightarrow> bool" where
  "g_error_matches e c = (code e = FWUPD_ERROR c)"

text \<open>What printf prints for a \<open>%s\<close> argument: the string, or \<open>(null)\<close> for NULL.\<close>

definition printf_s :: "string option \<Rightarrow> string" where
  "printf_s s = (case s of None \<Rightarrow> ''(null)'' | Some x \<Rightarrow> x)"

definition quoted :: "string \<Rightarrow> string" where
  "quoted s = [CHR 0x27] @ s @ [CHR 0x27]"

subsection \<open>Flags\<close>

text \<open>
  Modelled from the spec: the enumerations of libfwupd's header fwupd-enums.h are not
  under src/. The spec (section 3) gives the install flags and the trust flags as bitsets
  of named flags, which the task tests with \<open>&\<close>; each named flag is one bit of its own.
  The positions are those of libfwupd's public header; the theorems below use only that
  the flags are different bits.
\<close>

type_synonym FwupdInstallFlags = "32 word"
type_synonym FwupdReleaseFlags = "64 word"

definition FWUPD_INSTALL_FLAG_NONE :: FwupdInstallFlags where
  "FWUPD_INSTALL_FLAG_NONE = 0"
definition FWUPD_INSTALL_FLAG_OFFLINE :: FwupdInstallFlags where
  "FWUPD_INSTALL_FLAG_OFFLINE = 1"
definition FWUPD_INSTALL_FLAG_ALLOW_REINSTALL :: FwupdInstallFlags where
  "FWUPD_INSTALL_FLAG_ALLOW_REINSTALL = 2"
definition FWUPD_INSTALL_FLAG_ALLOW_OLDER :: FwupdInstallFlags where
  "FWUPD_INSTALL_FLAG_ALLOW_OLDER = 4"
definition FWUPD_INSTALL_FLAG_FORCE :: FwupdInstallFlags where
  "FWUPD_INSTALL_FLAG_FORCE = 8"
definition FWUPD_INSTALL_FLAG_ALLOW_BRANCH_SWITCH :: FwupdInstallFlags where
  "FWUPD_INSTALL_FLAG_ALLOW_BRANCH_SWITCH = 32"

definition FWUPD_TRUST_FLAG_NONE :: FwupdReleaseFlags where
  "FWUPD_TRUST_FLAG_NONE = 0"
definition FWUPD_TRUST_FLAG_PAYLOAD :: FwupdReleaseFlags where
  "FWUPD_TRUST_FLAG_PAYLOAD = 1"

text \<open>
  Modelled from the spec: the device flags live in FuDevice (fu-device.c, not under
  src/) and the task reads them only through \<open>fu_device_has_flag\<close>; the spec gives them
  as a set drawn from the six flags below plus unrelated ones.
\<close>

datatype FwupdDeviceFlag =
    FWUPD_DEVICE_FLAG_INTERNAL
  | FWUPD_DEVICE_FLAG_UPDATABLE
  | FWUPD_DEVICE_FLAG_ONLY_OFFLINE
  | FWUPD_DEVICE_FLAG_LOCKED
  | FWUPD_DEVICE_FLAG_VERSION_CHECK_REQUIRED
  | FWUPD_DEVICE_FLAG_ONLY_VERSION_UPGRADE
  | FWUPD_DEVICE_FLAG_OTHER nat

datatype FwupdVersionFormat =
    FWUPD_VERSION_FORMAT_UNKNOWN
  | FWUPD_VERSION_FORMAT_PLAIN
  | FWUPD_VERSION_FORMAT_SCHEME nat

subsection \<open>Device, metadata nodes, component and task\<close>

text \<open>
  Modelled from the spec: FuDevice (fu-device.c, not under src/), the read-only view of
  spec section 3. The accessors below are the device query surface of spec section 6:
  flag test, GUID-set membership, protocol-set membership and the field getters.
\<close>

record FuDevice =
  fu_device_get_flags :: "FwupdDeviceFlag set"
  fu_device_get_guids :: "string list"
  fu_device_get_protocols :: "string list"
  fu_device_get_branch :: "string option"
  fu_device_get_version :: "string option"
  fu_device_get_version_lowest :: "string option"
  fu_device_get_version_format :: FwupdVersionFormat
  fu_device_get_order :: int
  fu_device_get_name :: "string option"
  fu_device_get_id :: "string option"

definition fu_device_has_flag :: "FuDevice \<Rightarrow> FwupdDeviceFlag \<Rightarrow> bool" where
  "fu_device_has_flag d f = (f \<in> fu_device_get_flags d)"

definition fu_device_has_guid :: "FuDevice \<Rightarrow> string option \<Rightarrow> bool" where
  "fu_device_has_guid d g = (case g of None \<Rightarrow> False | Some x \<Rightarrow> x \<in> set (fu_device_get_guids d))"

definition fu_device_has_protocol :: "FuDevice \<Rightarrow> string \<Rightarrow> bool" where
  "fu_device_has_protocol d p = (p \<in> set (fu_device_get_protocols d))"

text \<open>
  Modelled from the spec: fu_common_strjoin_array (fu-common.c, not under src/), which
  joins the device's protocols with the separator (spec section 4.3, step 3).
\<close>

fun fu_common_strjoin_array :: "string \<Rightarrow> string list \<Rightarrow> string" where
  "fu_common_strjoin_array sep [] = []"
| "fu_common_strjoin_array sep [x] = x"
| "fu_common_strjoin_array sep (x # y # ys) = x @ sep @ fu_common_strjoin_array sep (y # ys)"

text \<open>
  A metadata node (libxmlb's XbNode) as the task reads it: element name, text (NULL when
  the element has none) and attributes.
\<close>

record XbNode =
  element :: string
  node_text :: "string option"
  attrs :: "(string \<times> string) list"

definition xb_node_get_attr :: "XbNode \<Rightarrow> string \<Rightarrow> string option" where
  "xb_node_get_attr n k = map_of (attrs n) k"

text \<open>
  The component is an XbNode too, and the task reads it only through six fixed XPath
  queries; the model carries the answer to each. \<open>xb_node_query\<close> answers NULL with an
  error (here its message) or the matching nodes; \<open>xb_node_query_text\<close> answers NULL or a
  text. The release lookup first builds the query with \<open>xb_query_new_full\<close>, which can
  fail with an error of its own (\<open>Inl\<close>; never so in a build against libxmlb before
  0.2.0), and then asks for the first \<open>releases/release\<close> node, NULL when there is none.
  The version formats are asked for with no error location: NULL or the nodes.
\<close>

record XbComponent =
  provides_firmware_flashed :: "string + XbNode list"
  requires_all :: "string + XbNode list"
  custom_update_protocol :: "string option"
  component_branch :: "string option"
  releases_release :: "GError + XbNode option"
  custom_version_formats :: "XbNode list option"

record FuInstallTask =
  device :: FuDevice
  component :: XbComponent
  trust_flags :: FwupdReleaseFlags
  is_downgrade :: bool

text \<open>
  The collaborators that are not under src/, taken as parameters: the version
  comparator and parser (fu-common-version.c), the names of the version formats
  (libfwupd) and the keyring. The keyring follows the contract of spec section 4.2,
  \<open>evaluate(release) -> Result<TrustFlags, Error>\<close>: on success the flags it stores
  through the task's \<open>trust_flags\<close> pointer, on failure its error and nothing stored.
\<close>

record externals =
  fu_common_vercmp_full :: "string \<Rightarrow> string \<Rightarrow> FwupdVersionFormat \<Rightarrow> int"
  fu_common_version_parse_from_format :: "string \<Rightarrow> FwupdVersionFormat \<Rightarrow> string"
  fwupd_version_format_from_string :: "string option \<Rightarrow> FwupdVersionFormat"
  fwupd_version_format_to_string :: "FwupdVersionFormat \<Rightarrow> string option"
  fu_keyring_get_release_flags :: "XbNode \<Rightarrow> GError + FwupdReleaseFlags"

definition fu_install_task_new :: "FuDevice \<Rightarrow> XbComponent \<Rightarrow> FuInstallTask" where
  "fu_install_task_new d c =
     \<lparr>device = d, component = c, trust_flags = FWUPD_TRUST_FLAG_NONE, is_downgrade = False\<rparr>"

definition fu_install_task_get_trust_flags :: "FuInstallTask \<Rightarrow> FwupdReleaseFlags" where
  "fu_install_task_get_trust_flags self = trust_flags self"

definition fu_install_task_get_is_downgrade :: "FuInstallTask \<Rightarrow> bool" where
  "fu_install_task_get_is_downgrade self = is_downgrade self"

section \<open>The requirement checks\<close>

subsection \<open>Version formats (fu_install_task_verfmts_to_string, fu_install_task_check_verfmt)\<close>

fun verfmts_append :: "XbNode list \<Rightarrow> string \<Rightarrow> string" where
  "verfmts_append [] str = str"
| "verfmts_append (verfmt # rest) str =
     verfmts_append rest (str @ printf_s (node_text verfmt) @ '';'')"

definition fu_install_task_verfmts_to_string :: "XbNode list \<Rightarrow> string" where
  "fu_install_task_verfmts_to_string verfmts =
     (let str = verfmts_append verfmts []
      in if length str > 0 then take (length str - 1) str else str)"

fun verfmt_matches :: "externals \<Rightarrow> FwupdVersionFormat \<Rightarrow> XbNode list \<Rightarrow> bool" where
  "verfmt_matches ext fmt_dev [] = False"
| "verfmt_matches ext fmt_dev (verfmt # rest) =
     (if fmt_dev = fwupd_version_format_from_string ext (node_text verfmt) then True
      else verfmt_matches ext fmt_dev rest)"

definition fu_install_task_check_verfmt ::
  "externals \<Rightarrow> FuInstallTask \<Rightarrow> XbNode list \<Rightarrow> FwupdInstallFlags \<Rightarrow> GError + unit" where
  "fu_install_task_check_verfmt ext self verfmts flags =
     (let fmt_dev = fu_device_get_version_format (device self) in
      if fmt_dev = FWUPD_VERSION_FORMAT_UNKNOWN \<and> flags AND FWUPD_INSTALL_FLAG_FORCE = 0 then
        Inl (g_set_error FWUPD_ERROR_NOT_SUPPORTED
              (''release version format '' @ quoted (fu_install_task_verfmts_to_string verfmts)
               @ '' but no device version format''))
      else if verfmt_matches ext fmt_dev verfmts then Inr ()
      else if flags AND FWUPD_INSTALL_FLAG_FORCE = 0 then
        Inl (g_set_error FWUPD_ERROR_NOT_SUPPORTED
              (''Firmware version formats were different, device was ''
               @ quoted (printf_s (fwupd_version_format_to_string ext fmt_dev))
               @ '' and release is '' @ quoted (fu_install_task_verfmts_to_string verfmts)))
      else Inr ())"

subsection \<open>The version-check requirement (fu_install_task_check_requirements_version_check)\<close>

fun has_firmware_requirement :: "XbNode list \<Rightarrow> bool" where
  "has_firmware_requirement [] = False"
| "has_firmware_requirement (req # rest) =
     (if element req = ''firmware'' \<and> node_text req = None then True
      else has_firmware_requirement rest)"

definition fu_install_task_check_requirements_version_check :: "FuInstallTask \<Rightarrow> GError + unit" where
  "fu_install_task_check_requirements_version_check self =
     (case requires_all (component self) of
        Inl msg \<Rightarrow> Inl (g_set_error FWUPD_ERROR_NOT_SUPPORTED msg)
      | Inr reqs \<Rightarrow>
          if has_firmware_requirement reqs then Inr ()
          else Inl (g_set_error FWUPD_ERROR_NOT_SUPPORTED ''no firmware requirement''))"

subsection \<open>The steps of fu_install_task_check_requirements, in source order\<close>

text \<open>
  Each step is one commented block of the function. A step answers \<open>Inr ()\<close> when the
  function goes on to the next block and \<open>Inl e\<close> when it sets the error \<open>e\<close> and returns
  FALSE.
\<close>

text \<open>Lines 222-247: does this component provide a GUID the device has.\<close>

fun matches_guid :: "FuDevice \<Rightarrow> XbNode list \<Rightarrow> bool" where
  "matches_guid d [] = False"
| "matches_guid d (provide # rest) =
     (if fu_device_has_guid d (node_text provide) then True else matches_guid d rest)"

definition check_guid :: "FuInstallTask \<Rightarrow> GError + unit" where
  "check_guid self =
     (case provides_firmware_flashed (component self) of
        Inl msg \<Rightarrow>
          Inl (g_set_error FWUPD_ERROR_NOT_FOUND (''No supported devices found: '' @ msg))
      | Inr provides \<Rightarrow>
          if \<not> matches_guid (device self) provides then
            Inl (g_set_error FWUPD_ERROR_NOT_FOUND ''No supported devices found'')
          else Inr ())"

text \<open>Lines 249-255: device requires a version check.\<close>

definition check_version_check_required :: "FuInstallTask \<Rightarrow> GError + unit" where
  "check_version_check_required self =
     (if fu_device_has_flag (device self) FWUPD_DEVICE_FLAG_VERSION_CHECK_REQUIRED then
        (case fu_install_task_check_requirements_version_check self of
           Inl e \<Rightarrow> Inl (g_prefix_error e ''device requires firmware with a version check: '')
         | Inr u \<Rightarrow> Inr ())
      else Inr ())"

text \<open>Lines 257-273: does the protocol match.\<close>

definition check_protocol :: "FuInstallTask \<Rightarrow> FwupdInstallFlags \<Rightarrow> GError + unit" where
  "check_protocol self flags =
     (case custom_update_protocol (component self) of
        None \<Rightarrow> Inr ()
      | Some protocol \<Rightarrow>
          if length (fu_device_get_protocols (device self)) \<noteq> 0 \<and>
             \<not> fu_device_has_protocol (device self) protocol \<and>
             flags AND FWUPD_INSTALL_FLAG_FORCE = 0 then
            Inl (g_set_error FWUPD_ERROR_NOT_SUPPORTED
                  (''Device '' @ printf_s (fu_device_get_name (device self)) @ '' does not support ''
                   @ protocol @ '', only ''
                   @ fu_common_strjoin_array ''|'' (fu_device_get_protocols (device self))))
          else Inr ())"

text \<open>Lines 275-284: check the device is not locked.\<close>

definition device_label :: "FuDevice \<Rightarrow> string" where
  "device_label d = printf_s (fu_device_get_name d) @ '' ['' @ printf_s (fu_device_get_id d) @ '']''"

definition check_locked :: "FuInstallTask \<Rightarrow> GError + unit" where
  "check_locked self =
     (if fu_device_has_flag (device self) FWUPD_DEVICE_FLAG_LOCKED then
        Inl (g_set_error FWUPD_ERROR_NOT_SUPPORTED
              (''Device '' @ device_label (device self) @ '' is locked''))
      else Inr ())"

text \<open>Lines 286-300: check the branch is not switching.\<close>

definition branch_or_default :: "string option \<Rightarrow> string" where
  "branch_or_default b = (case b of None \<Rightarrow> ''default'' | Some x \<Rightarrow> x)"

definition check_branch :: "FuInstallTask \<Rightarrow> FwupdInstallFlags \<Rightarrow> GError + unit" where
  "check_branch self flags =
     (let branch_new = component_branch (component self);
          branch_old = fu_device_get_branch (device self)
      in if flags AND FWUPD_INSTALL_FLAG_ALLOW_BRANCH_SWITCH = 0 \<and> branch_old \<noteq> branch_new then
           Inl (g_set_error FWUPD_ERROR_NOT_SUPPORTED
                 (''Device '' @ device_label (device self)
                  @ '' would switch firmware branch from '' @ branch_or_default branch_old
                  @ '' to '' @ branch_or_default branch_new))
         else Inr ())"

text \<open>Lines 302-311: no update abilities.\<close>

definition check_updatable :: "FuInstallTask \<Rightarrow> GError + unit" where
  "check_updatable self =
     (if \<not> fu_device_has_flag (device self) FWUPD_DEVICE_FLAG_UPDATABLE then
        Inl (g_set_error FWUPD_ERROR_NOT_SUPPORTED
              (''Device '' @ device_label (device self) @ '' does not currently allow updates''))
      else Inr ())"

text \<open>Lines 313-324: called with online update, test if device is supposed to allow this.\<close>

definition check_only_offline :: "FuInstallTask \<Rightarrow> FwupdInstallFlags \<Rightarrow> GError + unit" where
  "check_only_offline self flags =
     (if flags AND FWUPD_INSTALL_FLAG_OFFLINE = 0 \<and>
         flags AND FWUPD_INSTALL_FLAG_FORCE = 0 \<and>
         fu_device_has_flag (device self) FWUPD_DEVICE_FLAG_ONLY_OFFLINE then
        Inl (g_set_error FWUPD_ERROR_NOT_SUPPORTED
              (''Device '' @ device_label (device self) @ '' only allows offline updates''))
      else Inr ())"

text \<open>Lines 326-336: get device (its version).\<close>

definition get_device_version :: "FuInstallTask \<Rightarrow> GError + string" where
  "get_device_version self =
     (case fu_device_get_version (device self) of
        None \<Rightarrow>
          Inl (g_set_error FWUPD_ERROR_INTERNAL
                (''Device '' @ device_label (device self) @ '' has no firmware version''))
      | Some version \<Rightarrow> Inr version)"

text \<open>Lines 338-358: get latest release.\<close>

definition get_release :: "FuInstallTask \<Rightarrow> GError + XbNode" where
  "get_release self =
     (case releases_release (component self) of
        Inl e \<Rightarrow> Inl e
      | Inr None \<Rightarrow>
          Inl (g_set_error FWUPD_ERROR_INVALID_FILE
                (device_label (device self) @ '' has no firmware update metadata''))
      | Inr (Some release) \<Rightarrow> Inr release)"

text \<open>Lines 360-368: is this a downgrade or re-install (the release's raw version).\<close>

definition get_release_version_raw :: "XbNode \<Rightarrow> GError + string" where
  "get_release_version_raw release =
     (case xb_node_get_attr release ''version'' of
        None \<Rightarrow> Inl (g_set_error FWUPD_ERROR_INVALID_FILE ''Release has no firmware version'')
      | Some raw \<Rightarrow> Inr raw)"

text \<open>Lines 370-380: check the version formats match if set in the release.\<close>

definition check_version_formats ::
  "externals \<Rightarrow> FuInstallTask \<Rightarrow> FwupdInstallFlags \<Rightarrow> GError + unit" where
  "check_version_formats ext self flags =
     (if flags AND FWUPD_INSTALL_FLAG_FORCE = 0 \<and>
         flags AND FWUPD_INSTALL_FLAG_ALLOW_BRANCH_SWITCH = 0 then
        (case custom_version_formats (component self) of
           None \<Rightarrow> Inr ()
         | Some verfmts \<Rightarrow> fu_install_task_check_verfmt ext self verfmts flags)
      else Inr ())"

text \<open>Lines 382-394: compare to the lowest supported version, if it exists.\<close>

definition check_version_lowest ::
  "externals \<Rightarrow> FuInstallTask \<Rightarrow> string \<Rightarrow> FwupdInstallFlags \<Rightarrow> GError + unit" where
  "check_version_lowest ext self version flags =
     (case fu_device_get_version_lowest (device self) of
        None \<Rightarrow> Inr ()
      | Some lowest \<Rightarrow>
          if fu_common_vercmp_full ext lowest version (fu_device_get_version_format (device self)) > 0 \<and>
             flags AND FWUPD_INSTALL_FLAG_FORCE = 0 then
            Inl (g_set_error FWUPD_ERROR_VERSION_NEWER
                  (''Specified firmware is older than the minimum required version ''
                   @ quoted (version @ '' < '' @ lowest)))
          else Inr ())"

text \<open>Lines 396-404: check semver (the release's version in the device's format, and the comparison).\<close>

definition release_version :: "externals \<Rightarrow> FuDevice \<Rightarrow> string \<Rightarrow> string" where
  "release_version ext d version_release_raw =
     (if fu_device_get_version_format d = FWUPD_VERSION_FORMAT_PLAIN then version_release_raw
      else fu_common_version_parse_from_format ext version_release_raw
             (fu_device_get_version_format d))"

definition release_vercmp :: "externals \<Rightarrow> FuDevice \<Rightarrow> string \<Rightarrow> string \<Rightarrow> int" where
  "release_vercmp ext d version version_release_raw =
     fu_common_vercmp_full ext version (release_version ext d version_release_raw)
       (fu_device_get_version_format d)"

text \<open>Lines 405-412: the device only supports version upgrades.\<close>

definition check_only_version_upgrade :: "FuInstallTask \<Rightarrow> int \<Rightarrow> GError + unit" where
  "check_only_version_upgrade self vercmp =
     (if fu_device_has_flag (device self) FWUPD_DEVICE_FLAG_ONLY_VERSION_UPGRADE \<and> vercmp \<ge> 0 then
        Inl (g_set_error FWUPD_ERROR_NOT_SUPPORTED ''Device only supports version upgrades'')
      else Inr ())"

text \<open>Lines 413-420: the same version is installed already.\<close>

definition check_version_same :: "FwupdInstallFlags \<Rightarrow> int \<Rightarrow> string \<Rightarrow> GError + unit" where
  "check_version_same flags vercmp version_release =
     (if vercmp = 0 \<and> flags AND FWUPD_INSTALL_FLAG_ALLOW_REINSTALL = 0 then
        Inl (g_set_error FWUPD_ERROR_VERSION_SAME
              (''Specified firmware is already installed '' @ quoted version_release))
      else Inr ())"

text \<open>Lines 421-431: \<open>is_downgrade\<close> is assigned, then a downgrade needs one of two flags.\<close>

definition check_downgrade ::
  "FuInstallTask \<Rightarrow> FwupdInstallFlags \<Rightarrow> int \<Rightarrow> string \<Rightarrow> string
     \<Rightarrow> (GError + unit) \<times> FuInstallTask" where
  "check_downgrade self flags vercmp version version_release =
     (let self1 = self\<lparr>is_downgrade := vercmp > 0\<rparr>
      in if is_downgrade self1 \<and>
            flags AND FWUPD_INSTALL_FLAG_ALLOW_OLDER = 0 \<and>
            flags AND FWUPD_INSTALL_FLAG_ALLOW_BRANCH_SWITCH = 0 then
           (Inl (g_set_error FWUPD_ERROR_VERSION_NEWER
                  (''Specified firmware is older than installed ''
                   @ quoted (version_release @ '' < '' @ version))), self1)
         else (Inr (), self1))"

text \<open>Lines 433-445: verify.\<close>

definition verify :: "externals \<Rightarrow> FuInstallTask \<Rightarrow> XbNode \<Rightarrow> (GError + unit) \<times> FuInstallTask" where
  "verify ext self release =
     (case fu_keyring_get_release_flags ext release of
        Inr tf \<Rightarrow> (Inr (), self\<lparr>trust_flags := tf\<rparr>)
      | Inl error_local \<Rightarrow>
          if g_error_matches error_local FWUPD_ERROR_NOT_SUPPORTED then (Inr (), self)
          else (Inl error_local, self))"

subsection \<open>fu_install_task_check_requirements\<close>

text \<open>
  The function answers TRUE (\<open>Inr ()\<close>) or FALSE with the error set (\<open>Inl e\<close>), together
  with the task as the call leaves it.
\<close>

definition fu_install_task_check_requirements ::
  "externals \<Rightarrow> FuInstallTask \<Rightarrow> FwupdInstallFlags \<Rightarrow> (GError + unit) \<times> FuInstallTask" where
  "fu_install_task_check_requirements ext self flags =
     (case check_guid self of Inl e \<Rightarrow> (Inl e, self) | Inr u \<Rightarrow>
     (case check_version_check_required self of Inl e \<Rightarrow> (Inl e, self) | Inr u \<Rightarrow>
     (case check_protocol self flags of Inl e \<Rightarrow> (Inl e, self) | Inr u \<Rightarrow>
     (case check_locked self of Inl e \<Rightarrow> (Inl e, self) | Inr u \<Rightarrow>
     (case check_branch self flags of Inl e \<Rightarrow> (Inl e, self) | Inr u \<Rightarrow>
     (case check_updatable self of Inl e \<Rightarrow> (Inl e, self) | Inr u \<Rightarrow>
     (case check_only_offline self flags of Inl e \<Rightarrow> (Inl e, self) | Inr u \<Rightarrow>
     (case get_device_version self of Inl e \<Rightarrow> (Inl e, self) | Inr version \<Rightarrow>
     (case get_release self of Inl e \<Rightarrow> (Inl e, self) | Inr release \<Rightarrow>
     (case get_release_version_raw release of Inl e \<Rightarrow> (Inl e, self) | Inr version_release_raw \<Rightarrow>
     (case check_version_formats ext self flags of Inl e \<Rightarrow> (Inl e, self) | Inr u \<Rightarrow>
     (case check_version_lowest ext self version flags of Inl e \<Rightarrow> (Inl e, self) | Inr u \<Rightarrow>
     (let version_release = release_version ext (device self) version_release_raw;
          vercmp = release_vercmp ext (device self) version version_release_raw
      in
     (case check_only_version_upgrade self vercmp of Inl e \<Rightarrow> (Inl e, self) | Inr u \<Rightarrow>
     (case check_version_same flags vercmp version_release of Inl e \<Rightarrow> (Inl e, self) | Inr u \<Rightarrow>
     (case check_downgrade self flags vercmp version version_release of
        (Inl e, self1) \<Rightarrow> (Inl e, self1)
      | (Inr u, self1) \<Rightarrow> verify ext self1 release))))))))))))))))"

subsection \<open>fu_install_task_get_action_id and fu_install_task_compare\<close>

definition fu_install_task_get_action_id :: "FuInstallTask \<Rightarrow> string" where
  "fu_install_task_get_action_id self =
     (if \<not> fu_device_has_flag (device self) FWUPD_DEVICE_FLAG_INTERNAL then
        (if is_downgrade self then ''org.freedesktop.fwupd.downgrade-hotplug''
         else if trust_flags self AND FWUPD_TRUST_FLAG_PAYLOAD \<noteq> 0 then
           ''org.freedesktop.fwupd.update-hotplug-trusted''
         else ''org.freedesktop.fwupd.update-hotplug'')
      else if is_downgrade self then ''org.freedesktop.fwupd.downgrade-internal''
      else if trust_flags self AND FWUPD_TRUST_FLAG_PAYLOAD \<noteq> 0 then
        ''org.freedesktop.fwupd.update-internal-trusted''
      else ''org.freedesktop.fwupd.update-internal'')"

definition fu_install_task_compare :: "FuInstallTask \<Rightarrow> FuInstallTask \<Rightarrow> int" where
  "fu_install_task_compare task1 task2 =
     (let device1 = device task1; device2 = device task2
      in if fu_device_get_order device1 < fu_device_get_order device2 then - 1
         else if fu_device_get_order device1 > fu_device_get_order device2 then 1
         else 0)"

section \<open>How far a run gets\<close>

text \<open>
  A run reaches a block of fu_install_task_check_requirements when every block before it
  let the run go on. The predicates name the blocks passed, in source order.
\<close>

definition reaches_locked_check :: "FuInstallTask \<Rightarrow> FwupdInstallFlags \<Rightarrow> bool" where
  "reaches_locked_check self flags =
     (check_guid self = Inr () \<and>
      check_version_check_required self = Inr () \<and>
      check_protocol self flags = Inr ())"

definition reaches_branch_check :: "FuInstallTask \<Rightarrow> FwupdInstallFlags \<Rightarrow> bool" where
  "reaches_branch_check self flags =
     (reaches_locked_check self flags \<and> check_locked self = Inr ())"

definition reaches_updatable_check :: "FuInstallTask \<Rightarrow> FwupdInstallFlags \<Rightarrow> bool" where
  "reaches_updatable_check self flags =
     (reaches_branch_check self flags \<and> check_branch self flags = Inr ())"

definition reaches_device_version :: "FuInstallTask \<Rightarrow> FwupdInstallFlags \<Rightarrow> bool" where
  "reaches_device_version self flags =
     (reaches_updatable_check self flags \<and>
      check_updatable self = Inr () \<and>
      check_only_offline self flags = Inr ())"

definition reaches_release_lookup ::
  "FuInstallTask \<Rightarrow> FwupdInstallFlags \<Rightarrow> string \<Rightarrow> bool" where
  "reaches_release_lookup self flags version =
     (reaches_device_version self flags \<and> get_device_version self = Inr version)"

definition reaches_version_lowest_check ::
  "externals \<Rightarrow> FuInstallTask \<Rightarrow> FwupdInstallFlags \<Rightarrow> string \<Rightarrow> XbNode \<Rightarrow> string \<Rightarrow> bool" where
  "reaches_version_lowest_check ext self flags version release version_release_raw =
     (reaches_release_lookup self flags version \<and>
      get_release self = Inr release \<and>
      get_release_version_raw release = Inr version_release_raw \<and>
      check_version_formats ext self flags = Inr ())"

definition reaches_version_comparison ::
  "externals \<Rightarrow> FuInstallTask \<Rightarrow> FwupdInstallFlags \<Rightarrow> string \<Rightarrow> XbNode \<Rightarrow> string \<Rightarrow> bool" where
  "reaches_version_comparison ext self flags version release version_release_raw =
     (reaches_version_lowest_check ext self flags version release version_release_raw \<and>
      check_version_lowest ext self version flags = Inr ())"

definition reaches_verify ::
  "externals \<Rightarrow> FuInstallTask \<Rightarrow> FwupdInstallFlags \<Rightarrow> string \<Rightarrow> XbNode \<Rightarrow> string \<Rightarrow> bool" where
  "reaches_verify ext self flags version release version_release_raw =
     (reaches_version_comparison ext self flags version release version_release_raw \<and>
      check_only_version_upgrade self
        (release_vercmp ext (device self) version version_release_raw) = Inr () \<and>
      check_version_same flags
        (release_vercmp ext (device self) version version_release_raw)
        (release_version ext (device self) version_release_raw) = Inr () \<and>
      fst (check_downgrade self flags
             (release_vercmp ext (device self) version version_release_raw) version
             (release_version ext (device self) version_release_raw)) = Inr ())"

text \<open>The GUIDs of the component's flashed-firmware provides entries (none when the query fails).\<close>

definition provided_guids :: "XbComponent \<Rightarrow> string list" where
  "provided_guids c =
     (case provides_firmware_flashed c of
        Inl msg \<Rightarrow> []
      | Inr provides \<Rightarrow> List.map_filter node_text provides)"

section \<open>The specification's tables\<close>

text \<open>
  The authorization tiers of spec section 4.4, as the table gives them: locality (internal
  or hotplug), downgrade, payload trusted. The identifier of a tier is its PolicyKit
  action id.
\<close>

datatype tier =
    Downgrade_hotplug
  | Update_hotplug_trusted
  | Update_hotplug
  | Downgrade_internal
  | Update_internal_trusted
  | Update_internal

fun tier_table :: "bool \<Rightarrow> bool \<Rightarrow> bool \<Rightarrow> tier" where
  "tier_table False True trusted = Downgrade_hotplug"
| "tier_table False False True = Update_hotplug_trusted"
| "tier_table False False False = Update_hotplug"
| "tier_table True True trusted = Downgrade_internal"
| "tier_table True False True = Update_internal_trusted"
| "tier_table True False False = Update_internal"

fun tier_id :: "tier \<Rightarrow> string" where
  "tier_id Downgrade_hotplug = ''org.freedesktop.fwupd.downgrade-hotplug''"
| "tier_id Update_hotplug_trusted = ''org.freedesktop.fwupd.update-hotplug-trusted''"
| "tier_id Update_hotplug = ''org.freedesktop.fwupd.update-hotplug''"
| "tier_id Downgrade_internal = ''org.freedesktop.fwupd.downgrade-internal''"
| "tier_id Update_internal_trusted = ''org.freedesktop.fwupd.update-internal-trusted''"
| "tier_id Update_internal = ''org.freedesktop.fwupd.update-internal''"

section \<open>Concrete collaborators and inputs\<close>

text \<open>
  Scripted collaborators in the manner of spec section 9: versions compared as plain
  strings (what \<open>g_strcmp0\<close> answers, as a sign), raw versions taken as they are, two
  format names, and a keyring with a fixed answer.
\<close>

fun strcmp_sign :: "string \<Rightarrow> string \<Rightarrow> int" where
  "strcmp_sign [] [] = 0"
| "strcmp_sign [] (y # ys) = - 1"
| "strcmp_sign (x # xs) [] = 1"
| "strcmp_sign (x # xs) (y # ys) =
     (if (of_char x :: nat) < of_char y then - 1
      else if (of_char x :: nat) > of_char y then 1
      else strcmp_sign xs ys)"

definition scripted :: "(GError + FwupdReleaseFlags) \<Rightarrow> externals" where
  "scripted answer =
     \<lparr>fu_common_vercmp_full = (\<lambda>a b fmt. strcmp_sign a b),
      fu_common_version_parse_from_format = (\<lambda>raw fmt. raw),
      fwupd_version_format_from_string =
        (\<lambda>s. if s = Some ''plain'' then FWUPD_VERSION_FORMAT_PLAIN
              else FWUPD_VERSION_FORMAT_UNKNOWN),
      fwupd_version_format_to_string =
        (\<lambda>f. if f = FWUPD_VERSION_FORMAT_PLAIN then Some ''plain'' else Some ''unknown''),
      fu_keyring_get_release_flags = (\<lambda>release. answer)\<rparr>"

text \<open>
  The device and component of the scenarios of spec section 8: an updatable device of
  plain version format with one GUID, and a component that provides that GUID and has one
  release.
\<close>

definition scenario_device :: "string \<Rightarrow> FuDevice" where
  "scenario_device v =
     \<lparr>fu_device_get_flags = {FWUPD_DEVICE_FLAG_UPDATABLE},
      fu_device_get_guids = [''2082b5e0-7a64-478a-b1b2-e3404fab6dad''],
      fu_device_get_protocols = [],
      fu_device_get_branch = None,
      fu_device_get_version = Some v,
      fu_device_get_version_lowest = None,
      fu_device_get_version_format = FWUPD_VERSION_FORMAT_PLAIN,
      fu_device_get_order = 0,
      fu_device_get_name = Some ''ColorHug'',
      fu_device_get_id = Some ''dev0''\<rparr>"

definition scenario_release :: "string \<Rightarrow> XbNode" where
  "scenario_release v = \<lparr>element = ''release'', node_text = None, attrs = [(''version'', v)]\<rparr>"

definition scenario_component :: "string \<Rightarrow> XbComponent" where
  "scenario_component v =
     \<lparr>provides_firmware_flashed =
        Inr [\<lparr>element = ''firmware'',
              node_text = Some ''2082b5e0-7a64-478a-b1b2-e3404fab6dad'',
              attrs = [(''type'', ''flashed'')]\<rparr>],
      requires_all = Inl ''no results'',
      custom_update_protocol = None,
      component_branch = None,
      releases_release = Inr (Some (scenario_release v)),
      custom_version_formats = None\<rparr>"

definition scenario_task :: "string \<Rightarrow> string \<Rightarrow> FuInstallTask" where
  "scenario_task v_device v_release =
     fu_install_task_new (scenario_device v_device) (scenario_component v_release)"

section \<open>Facts used throughout\<close>

lemmas step_defs = check_guid_def check_version_check_required_def check_protocol_def
  check_locked_def check_branch_def check_updatable_def check_only_offline_def
  get_device_version_def get_release_def get_release_version_raw_def
  check_version_formats_def check_version_lowest_def check_only_version_upgrade_def
  check_version_same_def check_downgrade_def verify_def

lemmas branch_reach_defs = reaches_locked_check_def reaches_branch_check_def

lemmas release_reach_defs = branch_reach_defs reaches_updatable_check_def
  reaches_device_version_def reaches_release_lookup_def

lemmas comparison_reach_defs = release_reach_defs reaches_version_lowest_check_def
  reaches_version_comparison_def

lemmas install_flag_defs = FWUPD_INSTALL_FLAG_OFFLINE_def
  FWUPD_INSTALL_FLAG_ALLOW_REINSTALL_def FWUPD_INSTALL_FLAG_ALLOW_OLDER_def
  FWUPD_INSTALL_FLAG_FORCE_def FWUPD_INSTALL_FLAG_ALLOW_BRANCH_SWITCH_def

lemmas scenario_defs = scripted_def scenario_device_def scenario_release_def
  scenario_component_def scenario_task_def fu_install_task_new_def
  fu_device_has_flag_def fu_device_has_guid_def fu_device_has_protocol_def
  xb_node_get_attr_def release_version_def release_vercmp_def g_set_error_def
  g_error_matches_def device_label_def printf_s_def quoted_def branch_or_default_def
  FWUPD_TRUST_FLAG_NONE_def FWUPD_TRUST_FLAG_PAYLOAD_def

lemmas eval_defs = fu_install_task_check_requirements_def step_defs scenario_defs
  install_flag_defs

text \<open>The loop over the provides entries finds a match exactly when a GUID is shared.\<close>

lemma matches_guid_iff:
  "matches_guid d provides \<longleftrightarrow>
     set (fu_device_get_guids d) \<inter> set (List.map_filter node_text provides) \<noteq> {}"
  by (induction provides) (auto simp: fu_device_has_guid_def map_filter_simps split: option.splits)

text \<open>Adding ALLOW_REINSTALL to the install flags changes no test of another flag.\<close>

lemma flags_or_reinstall:
  "(flags OR FWUPD_INSTALL_FLAG_ALLOW_REINSTALL) AND FWUPD_INSTALL_FLAG_FORCE
     = flags AND FWUPD_INSTALL_FLAG_FORCE"
  "(flags OR FWUPD_INSTALL_FLAG_ALLOW_REINSTALL) AND FWUPD_INSTALL_FLAG_OFFLINE
     = flags AND FWUPD_INSTALL_FLAG_OFFLINE"
  "(flags OR FWUPD_INSTALL_FLAG_ALLOW_REINSTALL) AND FWUPD_INSTALL_FLAG_ALLOW_OLDER
     = flags AND FWUPD_INSTALL_FLAG_ALLOW_OLDER"
  "(flags OR FWUPD_INSTALL_FLAG_ALLOW_REINSTALL) AND FWUPD_INSTALL_FLAG_ALLOW_BRANCH_SWITCH
     = flags AND FWUPD_INSTALL_FLAG_ALLOW_BRANCH_SWITCH"
  "(flags OR FWUPD_INSTALL_FLAG_ALLOW_REINSTALL) AND FWUPD_INSTALL_FLAG_ALLOW_REINSTALL \<noteq> 0"
  "FWUPD_INSTALL_FLAG_ALLOW_REINSTALL \<noteq> 0"
  by (simp_all add: install_flag_defs bit.conj_disj_distrib2)

lemma check_verfmt_or_reinstall:
  "fu_install_task_check_verfmt ext self verfmts (flags OR FWUPD_INSTALL_FLAG_ALLOW_REINSTALL)
     = fu_install_task_check_verfmt ext self verfmts flags"
  by (simp add: fu_install_task_check_verfmt_def flags_or_reinstall Let_def)

lemma steps_or_reinstall:
  "check_protocol self (flags OR FWUPD_INSTALL_FLAG_ALLOW_REINSTALL) = check_protocol self flags"
  "check_branch self (flags OR FWUPD_INSTALL_FLAG_ALLOW_REINSTALL) = check_branch self flags"
  "check_only_offline self (flags OR FWUPD_INSTALL_FLAG_ALLOW_REINSTALL)
     = check_only_offline self flags"
  "check_version_formats ext self (flags OR FWUPD_INSTALL_FLAG_ALLOW_REINSTALL)
     = check_version_formats ext self flags"
  "check_version_lowest ext self version (flags OR FWUPD_INSTALL_FLAG_ALLOW_REINSTALL)
     = check_version_lowest ext self version flags"
  by (simp_all add: check_protocol_def check_branch_def check_only_offline_def
        check_version_formats_def check_verfmt_or_reinstall check_version_lowest_def
        flags_or_reinstall cong: option.case_cong)

lemma reaches_version_comparison_or_reinstall:
  "reaches_version_comparison ext self (flags OR FWUPD_INSTALL_FLAG_ALLOW_REINSTALL)
     version release version_release_raw
   = reaches_version_comparison ext self flags version release version_release_raw"
  by (simp add: comparison_reach_defs steps_or_reinstall)

section \<open>The checks of fu_install_task_check_requirements\<close>

subsection \<open>GUID match\<close>

text \<open>
  Claim C7, as amended. When the device shares no GUID with the component's
  flashed-firmware provides entries, fu_install_task_check_requirements fails with
  NOT_FOUND and leaves the task as it was, whatever the install flags (FORCE included).
  The message is \<open>No supported devices found\<close> when the provides query answered entries,
  and that text followed by a colon and the query's error when the query answered none.
\<close>

theorem no_common_guid_not_found:
  assumes "set (fu_device_get_guids (device self)) \<inter> set (provided_guids (component self)) = {}"
  shows "fu_install_task_check_requirements ext self flags =
     (Inl (g_set_error FWUPD_ERROR_NOT_FOUND
        (case provides_firmware_flashed (component self) of
           Inl msg \<Rightarrow> ''No supported devices found: '' @ msg
         | Inr provides \<Rightarrow> ''No supported devices found'')), self)"
proof (cases "provides_firmware_flashed (component self)")
  case (Inl msg)
  then show ?thesis
    by (simp add: fu_install_task_check_requirements_def check_guid_def)
next
  case (Inr provides)
  with assms have "\<not> matches_guid (device self) provides"
    by (simp add: matches_guid_iff provided_guids_def)
  with Inr show ?thesis
    by (simp add: fu_install_task_check_requirements_def check_guid_def)
qed

theorem no_common_guid_not_found_witness:
  "set (fu_device_get_guids (scenario_device ''1.0.0'')) \<inter>
     set (provided_guids ((scenario_component ''2.0.0'')
       \<lparr>provides_firmware_flashed :=
          Inr [\<lparr>element = ''firmware'',
                node_text = Some ''84f40464-9272-4ef7-9399-cd95f12da696'',
                attrs = [(''type'', ''flashed'')]\<rparr>]\<rparr>)) = {}
   \<and> fu_install_task_check_requirements (scripted (Inr FWUPD_TRUST_FLAG_PAYLOAD))
       (fu_install_task_new (scenario_device ''1.0.0'')
          ((scenario_component ''2.0.0'')
             \<lparr>provides_firmware_flashed :=
                Inr [\<lparr>element = ''firmware'',
                      node_text = Some ''84f40464-9272-4ef7-9399-cd95f12da696'',
                      attrs = [(''type'', ''flashed'')]\<rparr>]\<rparr>))
       FWUPD_INSTALL_FLAG_FORCE =
     (Inl \<lparr>code = FWUPD_ERROR FWUPD_ERROR_NOT_FOUND,
           message = ''No supported devices found''\<rparr>,
      fu_install_task_new (scenario_device ''1.0.0'')
          ((scenario_component ''2.0.0'')
             \<lparr>provides_firmware_flashed :=
                Inr [\<lparr>element = ''firmware'',
                      node_text = Some ''84f40464-9272-4ef7-9399-cd95f12da696'',
                      attrs = [(''type'', ''flashed'')]\<rparr>]\<rparr>))"
  using no_common_guid_not_found
    [where self = "fu_install_task_new (scenario_device ''1.0.0'')
          ((scenario_component ''2.0.0'')
             \<lparr>provides_firmware_flashed :=
                Inr [\<lparr>element = ''firmware'',
                      node_text = Some ''84f40464-9272-4ef7-9399-cd95f12da696'',
                      attrs = [(''type'', ''flashed'')]\<rparr>]\<rparr>)"
       and ext = "scripted (Inr FWUPD_TRUST_FLAG_PAYLOAD)"
       and flags = FWUPD_INSTALL_FLAG_FORCE]
  by (simp add: eval_defs provided_guids_def map_filter_simps)

text \<open>
  Claim C7 as stated gives the message \<open>No supported devices found\<close> for every such
  device. A component whose provides query answers NULL shares no GUID with the device,
  and the message then carries the query's error (lines 226-233).
\<close>

theorem not_found_message_counterexample:
  "set (fu_device_get_guids (scenario_device ''1.0.0'')) \<inter>
     set (provided_guids ((scenario_component ''2.0.0'')
       \<lparr>provides_firmware_flashed := Inl ''no results for XPath query''\<rparr>)) = {}
   \<and> fst (fu_install_task_check_requirements (scripted (Inr FWUPD_TRUST_FLAG_PAYLOAD))
       (fu_install_task_new (scenario_device ''1.0.0'')
          ((scenario_component ''2.0.0'')
             \<lparr>provides_firmware_flashed := Inl ''no results for XPath query''\<rparr>))
       FWUPD_INSTALL_FLAG_NONE) =
     Inl \<lparr>code = FWUPD_ERROR FWUPD_ERROR_NOT_FOUND,
          message = ''No supported devices found: no results for XPath query''\<rparr>
   \<and> ''No supported devices found: no results for XPath query''
       \<noteq> ''No supported devices found''"
  by (simp add: eval_defs provided_guids_def FWUPD_INSTALL_FLAG_NONE_def)

subsection \<open>Checks that FORCE does not bypass\<close>

text \<open>
  Claim C6. For every install-flag set, FORCE included, and given that the earlier checks
  pass: a device with the LOCKED flag fails with NOT_SUPPORTED, a device lacking the
  UPDATABLE flag fails with NOT_SUPPORTED, a device with no firmware version fails with
  INTERNAL, and a component whose release lookup finds no release node fails with
  INVALID_FILE. No flag is consulted in any of the four.
\<close>

theorem force_does_not_bypass:
  "(reaches_locked_check self flags \<and>
      fu_device_has_flag (device self) FWUPD_DEVICE_FLAG_LOCKED \<longrightarrow>
    fu_install_task_check_requirements ext self flags =
      (Inl (g_set_error FWUPD_ERROR_NOT_SUPPORTED
             (''Device '' @ device_label (device self) @ '' is locked'')), self))
   \<and> (reaches_updatable_check self flags \<and>
      \<not> fu_device_has_flag (device self) FWUPD_DEVICE_FLAG_UPDATABLE \<longrightarrow>
    fu_install_task_check_requirements ext self flags =
      (Inl (g_set_error FWUPD_ERROR_NOT_SUPPORTED
             (''Device '' @ device_label (device self)
              @ '' does not currently allow updates'')), self))
   \<and> (reaches_device_version self flags \<and>
      fu_device_get_version (device self) = None \<longrightarrow>
    fu_install_task_check_requirements ext self flags =
      (Inl (g_set_error FWUPD_ERROR_INTERNAL
             (''Device '' @ device_label (device self) @ '' has no firmware version'')), self))
   \<and> (reaches_release_lookup self flags version \<and>
      releases_release (component self) = Inr None \<longrightarrow>
    fu_install_task_check_requirements ext self flags =
      (Inl (g_set_error FWUPD_ERROR_INVALID_FILE
             (device_label (device self) @ '' has no firmware update metadata'')), self))"
proof (intro conjI impI; elim conjE)
  assume "reaches_locked_check self flags"
    and "fu_device_has_flag (device self) FWUPD_DEVICE_FLAG_LOCKED"
  then show "fu_install_task_check_requirements ext self flags =
      (Inl (g_set_error FWUPD_ERROR_NOT_SUPPORTED
             (''Device '' @ device_label (device self) @ '' is locked'')), self)"
    by (simp add: fu_install_task_check_requirements_def release_reach_defs check_locked_def)
next
  assume "reaches_updatable_check self flags"
    and "\<not> fu_device_has_flag (device self) FWUPD_DEVICE_FLAG_UPDATABLE"
  then show "fu_install_task_check_requirements ext self flags =
      (Inl (g_set_error FWUPD_ERROR_NOT_SUPPORTED
             (''Device '' @ device_label (device self)
              @ '' does not currently allow updates'')), self)"
    by (simp add: fu_install_task_check_requirements_def release_reach_defs check_updatable_def)
next
  assume "reaches_device_version self flags"
    and "fu_device_get_version (device self) = None"
  then show "fu_install_task_check_requirements ext self flags =
      (Inl (g_set_error FWUPD_ERROR_INTERNAL
             (''Device '' @ device_label (device self) @ '' has no firmware version'')), self)"
    by (simp add: fu_install_task_check_requirements_def release_reach_defs get_device_version_def)
next
  assume "reaches_release_lookup self flags version"
    and "releases_release (component self) = Inr None"
  then show "fu_install_task_check_requirements ext self flags =
      (Inl (g_set_error FWUPD_ERROR_INVALID_FILE
             (device_label (device self) @ '' has no firmware update metadata'')), self)"
    by (simp add: fu_install_task_check_requirements_def release_reach_defs get_release_def)
qed

theorem force_does_not_bypass_witness:
  "reaches_locked_check
     (fu_install_task_new
        ((scenario_device ''1.0.0'')
           \<lparr>fu_device_get_flags := {FWUPD_DEVICE_FLAG_UPDATABLE, FWUPD_DEVICE_FLAG_LOCKED}\<rparr>)
        (scenario_component ''2.0.0''))
     FWUPD_INSTALL_FLAG_FORCE
   \<and> fst (fu_install_task_check_requirements (scripted (Inr FWUPD_TRUST_FLAG_PAYLOAD))
       (fu_install_task_new
          ((scenario_device ''1.0.0'')
             \<lparr>fu_device_get_flags := {FWUPD_DEVICE_FLAG_UPDATABLE, FWUPD_DEVICE_FLAG_LOCKED}\<rparr>)
          (scenario_component ''2.0.0''))
       FWUPD_INSTALL_FLAG_FORCE) =
     Inl \<lparr>code = FWUPD_ERROR FWUPD_ERROR_NOT_SUPPORTED,
          message = ''Device ColorHug [dev0] is locked''\<rparr>
   \<and> reaches_updatable_check
     (fu_install_task_new ((scenario_device ''1.0.0'')\<lparr>fu_device_get_flags := {}\<rparr>)
        (scenario_component ''2.0.0''))
     FWUPD_INSTALL_FLAG_FORCE
   \<and> fst (fu_install_task_check_requirements (scripted (Inr FWUPD_TRUST_FLAG_PAYLOAD))
       (fu_install_task_new ((scenario_device ''1.0.0'')\<lparr>fu_device_get_flags := {}\<rparr>)
          (scenario_component ''2.0.0''))
       FWUPD_INSTALL_FLAG_FORCE) =
     Inl \<lparr>code = FWUPD_ERROR FWUPD_ERROR_NOT_SUPPORTED,
          message = ''Device ColorHug [dev0] does not currently allow updates''\<rparr>
   \<and> reaches_device_version
     (fu_install_task_new ((scenario_device ''1.0.0'')\<lparr>fu_device_get_version := None\<rparr>)
        (scenario_component ''2.0.0''))
     FWUPD_INSTALL_FLAG_FORCE
   \<and> fst (fu_install_task_check_requirements (scripted (Inr FWUPD_TRUST_FLAG_PAYLOAD))
       (fu_install_task_new ((scenario_device ''1.0.0'')\<lparr>fu_device_get_version := None\<rparr>)
          (scenario_component ''2.0.0''))
       FWUPD_INSTALL_FLAG_FORCE) =
     Inl \<lparr>code = FWUPD_ERROR FWUPD_ERROR_INTERNAL,
          message = ''Device ColorHug [dev0] has no firmware version''\<rparr>
   \<and> reaches_release_lookup
     (fu_install_task_new (scenario_device ''1.0.0'')
        ((scenario_component ''2.0.0'')\<lparr>releases_release := Inr None\<rparr>))
     FWUPD_INSTALL_FLAG_FORCE ''1.0.0''
   \<and> fst (fu_install_task_check_requirements (scripted (Inr FWUPD_TRUST_FLAG_PAYLOAD))
       (fu_install_task_new (scenario_device ''1.0.0'')
          ((scenario_component ''2.0.0'')\<lparr>releases_release := Inr None\<rparr>))
       FWUPD_INSTALL_FLAG_FORCE) =
     Inl \<lparr>code = FWUPD_ERROR FWUPD_ERROR_INVALID_FILE,
          message = ''ColorHug [dev0] has no firmware update metadata''\<rparr>"
  using
    force_does_not_bypass
      [where self = "fu_install_task_new
          ((scenario_device ''1.0.0'')
             \<lparr>fu_device_get_flags := {FWUPD_DEVICE_FLAG_UPDATABLE, FWUPD_DEVICE_FLAG_LOCKED}\<rparr>)
          (scenario_component ''2.0.0'')"
         and flags = FWUPD_INSTALL_FLAG_FORCE
         and ext = "scripted (Inr FWUPD_TRUST_FLAG_PAYLOAD)" and version = "''1.0.0''"]
    force_does_not_bypass
      [where self = "fu_install_task_new
          ((scenario_device ''1.0.0'')\<lparr>fu_device_get_flags := {}\<rparr>)
          (scenario_component ''2.0.0'')"
         and flags = FWUPD_INSTALL_FLAG_FORCE
         and ext = "scripted (Inr FWUPD_TRUST_FLAG_PAYLOAD)" and version = "''1.0.0''"]
    force_does_not_bypass
      [where self = "fu_install_task_new
          ((scenario_device ''1.0.0'')\<lparr>fu_device_get_version := None\<rparr>)
          (scenario_component ''2.0.0'')"
         and flags = FWUPD_INSTALL_FLAG_FORCE
         and ext = "scripted (Inr FWUPD_TRUST_FLAG_PAYLOAD)" and version = "''1.0.0''"]
    force_does_not_bypass
      [where self = "fu_install_task_new (scenario_device ''1.0.0'')
          ((scenario_component ''2.0.0'')\<lparr>releases_release := Inr None\<rparr>)"
         and flags = FWUPD_INSTALL_FLAG_FORCE
         and ext = "scripted (Inr FWUPD_TRUST_FLAG_PAYLOAD)" and version = "''1.0.0''"]
  by (simp add: eval_defs release_reach_defs)

subsection \<open>Branch check\<close>

text \<open>
  Claim C2, as amended. A run that reaches the branch check passes it exactly when the
  device's branch and the component's branch are equal as they are (both absent, or both
  present with the same text) or ALLOW_BRANCH_SWITCH is set; otherwise the run fails with
  NOT_SUPPORTED and a message that names both branches, an absent one as \<open>default\<close>. The
  comparison does not default an absent branch: absent and the text \<open>default\<close> differ.
\<close>

theorem branch_check_compares_optional_branches:
  assumes "reaches_branch_check self flags"
  shows "(check_branch self flags = Inr () \<longleftrightarrow>
            fu_device_get_branch (device self) = component_branch (component self) \<or>
            flags AND FWUPD_INSTALL_FLAG_ALLOW_BRANCH_SWITCH \<noteq> 0)
   \<and> (check_branch self flags \<noteq> Inr () \<longrightarrow>
        fu_install_task_check_requirements ext self flags =
          (Inl (g_set_error FWUPD_ERROR_NOT_SUPPORTED
                 (''Device '' @ device_label (device self)
                  @ '' would switch firmware branch from ''
                  @ branch_or_default (fu_device_get_branch (device self))
                  @ '' to '' @ branch_or_default (component_branch (component self)))), self))"
proof (intro conjI impI)
  show "check_branch self flags = Inr () \<longleftrightarrow>
            fu_device_get_branch (device self) = component_branch (component self) \<or>
            flags AND FWUPD_INSTALL_FLAG_ALLOW_BRANCH_SWITCH \<noteq> 0"
    by (auto simp: check_branch_def)
next
  assume "check_branch self flags \<noteq> Inr ()"
  then have "check_branch self flags =
          Inl (g_set_error FWUPD_ERROR_NOT_SUPPORTED
                 (''Device '' @ device_label (device self)
                  @ '' would switch firmware branch from ''
                  @ branch_or_default (fu_device_get_branch (device self))
                  @ '' to '' @ branch_or_default (component_branch (component self))))"
    by (simp add: check_branch_def Let_def split: if_splits)
  with assms show "fu_install_task_check_requirements ext self flags =
          (Inl (g_set_error FWUPD_ERROR_NOT_SUPPORTED
                 (''Device '' @ device_label (device self)
                  @ '' would switch firmware branch from ''
                  @ branch_or_default (fu_device_get_branch (device self))
                  @ '' to '' @ branch_or_default (component_branch (component self)))), self)"
    by (simp add: fu_install_task_check_requirements_def branch_reach_defs)
qed

theorem branch_check_compares_optional_branches_witness:
  "reaches_branch_check
     (fu_install_task_new
        ((scenario_device ''1.0.0'')\<lparr>fu_device_get_branch := Some ''stable''\<rparr>)
        ((scenario_component ''2.0.0'')\<lparr>component_branch := Some ''stable''\<rparr>))
     FWUPD_INSTALL_FLAG_NONE
   \<and> check_branch
     (fu_install_task_new
        ((scenario_device ''1.0.0'')\<lparr>fu_device_get_branch := Some ''stable''\<rparr>)
        ((scenario_component ''2.0.0'')\<lparr>component_branch := Some ''stable''\<rparr>))
     FWUPD_INSTALL_FLAG_NONE = Inr ()
   \<and> reaches_branch_check
     (fu_install_task_new (scenario_device ''1.0.0'')
        ((scenario_component ''2.0.0'')\<lparr>component_branch := Some ''beta''\<rparr>))
     FWUPD_INSTALL_FLAG_FORCE
   \<and> check_branch
     (fu_install_task_new (scenario_device ''1.0.0'')
        ((scenario_component ''2.0.0'')\<lparr>component_branch := Some ''beta''\<rparr>))
     FWUPD_INSTALL_FLAG_FORCE \<noteq> Inr ()
   \<and> fst (fu_install_task_check_requirements (scripted (Inr FWUPD_TRUST_FLAG_PAYLOAD))
     (fu_install_task_new (scenario_device ''1.0.0'')
        ((scenario_component ''2.0.0'')\<lparr>component_branch := Some ''beta''\<rparr>))
     FWUPD_INSTALL_FLAG_FORCE) =
     Inl \<lparr>code = FWUPD_ERROR FWUPD_ERROR_NOT_SUPPORTED,
          message = ''Device ColorHug [dev0] would switch firmware branch from default to beta''\<rparr>"
  using
    branch_check_compares_optional_branches
      [where self = "fu_install_task_new
          ((scenario_device ''1.0.0'')\<lparr>fu_device_get_branch := Some ''stable''\<rparr>)
          ((scenario_component ''2.0.0'')\<lparr>component_branch := Some ''stable''\<rparr>)"
         and flags = FWUPD_INSTALL_FLAG_NONE
         and ext = "scripted (Inr FWUPD_TRUST_FLAG_PAYLOAD)"]
    branch_check_compares_optional_branches
      [where self = "fu_install_task_new (scenario_device ''1.0.0'')
          ((scenario_component ''2.0.0'')\<lparr>component_branch := Some ''beta''\<rparr>)"
         and flags = FWUPD_INSTALL_FLAG_FORCE
         and ext = "scripted (Inr FWUPD_TRUST_FLAG_PAYLOAD)"]
  by (simp add: eval_defs branch_reach_defs FWUPD_INSTALL_FLAG_NONE_def)

text \<open>
  Claim C2 as stated compares the branches after defaulting, so a device on the branch
  \<open>default\<close> and a component with no branch element would pass. They do not: \<open>g_strcmp0\<close>
  compares the text with NULL (line 290), and only the message defaults (lines 297-298).
\<close>

theorem branch_default_counterexample:
  "reaches_branch_check
     (fu_install_task_new
        ((scenario_device ''1.0.0'')\<lparr>fu_device_get_branch := Some ''default''\<rparr>)
        (scenario_component ''2.0.0''))
     FWUPD_INSTALL_FLAG_NONE
   \<and> component_branch (scenario_component ''2.0.0'') = None
   \<and> branch_or_default (Some ''default'') = branch_or_default None
   \<and> FWUPD_INSTALL_FLAG_NONE AND FWUPD_INSTALL_FLAG_ALLOW_BRANCH_SWITCH = 0
   \<and> fst (fu_install_task_check_requirements (scripted (Inr FWUPD_TRUST_FLAG_PAYLOAD))
     (fu_install_task_new
        ((scenario_device ''1.0.0'')\<lparr>fu_device_get_branch := Some ''default''\<rparr>)
        (scenario_component ''2.0.0''))
     FWUPD_INSTALL_FLAG_NONE) =
     Inl \<lparr>code = FWUPD_ERROR FWUPD_ERROR_NOT_SUPPORTED,
          message =
            ''Device ColorHug [dev0] would switch firmware branch from default to default''\<rparr>"
  by (simp add: eval_defs branch_reach_defs FWUPD_INSTALL_FLAG_NONE_def)

subsection \<open>Minimum-version floor\<close>

text \<open>
  Claim C4. In a run that reaches the comparison with the lowest supported version, the
  version compared is the device's own. If the device defines \<open>version_lowest\<close>,
  comparing it with the device's version in the device's format gives a positive result
  and FORCE is unset, the run fails with VERSION_NEWER and the message that the firmware
  is older than the minimum required version. If FORCE is set or \<open>version_lowest\<close> is
  absent, the check is passed and the run reaches the version comparison.
\<close>

theorem version_lowest_floor:
  assumes "reaches_version_lowest_check ext self flags version release version_release_raw"
  shows "fu_device_get_version (device self) = Some version
   \<and> (fu_device_get_version_lowest (device self) = Some lowest \<and>
      fu_common_vercmp_full ext lowest version (fu_device_get_version_format (device self)) > 0 \<and>
      flags AND FWUPD_INSTALL_FLAG_FORCE = 0 \<longrightarrow>
    fu_install_task_check_requirements ext self flags =
      (Inl (g_set_error FWUPD_ERROR_VERSION_NEWER
             (''Specified firmware is older than the minimum required version ''
              @ quoted (version @ '' < '' @ lowest))), self))
   \<and> (flags AND FWUPD_INSTALL_FLAG_FORCE \<noteq> 0 \<or>
      fu_device_get_version_lowest (device self) = None \<longrightarrow>
    check_version_lowest ext self version flags = Inr () \<and>
    reaches_version_comparison ext self flags version release version_release_raw)"
proof (intro conjI impI)
  from assms show "fu_device_get_version (device self) = Some version"
    by (auto simp: comparison_reach_defs get_device_version_def split: option.splits)
next
  assume "fu_device_get_version_lowest (device self) = Some lowest \<and>
      fu_common_vercmp_full ext lowest version (fu_device_get_version_format (device self)) > 0 \<and>
      flags AND FWUPD_INSTALL_FLAG_FORCE = 0"
  with assms show "fu_install_task_check_requirements ext self flags =
      (Inl (g_set_error FWUPD_ERROR_VERSION_NEWER
             (''Specified firmware is older than the minimum required version ''
              @ quoted (version @ '' < '' @ lowest))), self)"
    by (simp add: fu_install_task_check_requirements_def comparison_reach_defs check_version_lowest_def)
next
  assume "flags AND FWUPD_INSTALL_FLAG_FORCE \<noteq> 0 \<or>
      fu_device_get_version_lowest (device self) = None"
  then show "check_version_lowest ext self version flags = Inr ()"
    by (auto simp: check_version_lowest_def split: option.splits)
next
  assume "flags AND FWUPD_INSTALL_FLAG_FORCE \<noteq> 0 \<or>
      fu_device_get_version_lowest (device self) = None"
  then have "check_version_lowest ext self version flags = Inr ()"
    by (auto simp: check_version_lowest_def split: option.splits)
  with assms show "reaches_version_comparison ext self flags version release version_release_raw"
    by (simp add: reaches_version_comparison_def)
qed

theorem version_lowest_floor_witness:
  "reaches_version_lowest_check (scripted (Inr FWUPD_TRUST_FLAG_PAYLOAD))
     (fu_install_task_new
        ((scenario_device ''1.0.0'')\<lparr>fu_device_get_version_lowest := Some ''1.2.0''\<rparr>)
        (scenario_component ''2.0.0''))
     FWUPD_INSTALL_FLAG_NONE ''1.0.0'' (scenario_release ''2.0.0'') ''2.0.0''
   \<and> fst (fu_install_task_check_requirements (scripted (Inr FWUPD_TRUST_FLAG_PAYLOAD))
       (fu_install_task_new
          ((scenario_device ''1.0.0'')\<lparr>fu_device_get_version_lowest := Some ''1.2.0''\<rparr>)
          (scenario_component ''2.0.0''))
       FWUPD_INSTALL_FLAG_NONE) =
     Inl \<lparr>code = FWUPD_ERROR FWUPD_ERROR_VERSION_NEWER,
          message = ''Specified firmware is older than the minimum required version ''
                    @ quoted ''1.0.0 < 1.2.0''\<rparr>
   \<and> reaches_version_lowest_check (scripted (Inr FWUPD_TRUST_FLAG_PAYLOAD))
     (fu_install_task_new
        ((scenario_device ''1.0.0'')\<lparr>fu_device_get_version_lowest := Some ''1.2.0''\<rparr>)
        (scenario_component ''2.0.0''))
     FWUPD_INSTALL_FLAG_FORCE ''1.0.0'' (scenario_release ''2.0.0'') ''2.0.0''
   \<and> FWUPD_INSTALL_FLAG_FORCE AND FWUPD_INSTALL_FLAG_FORCE \<noteq> 0
   \<and> reaches_version_comparison (scripted (Inr FWUPD_TRUST_FLAG_PAYLOAD))
     (fu_install_task_new
        ((scenario_device ''1.0.0'')\<lparr>fu_device_get_version_lowest := Some ''1.2.0''\<rparr>)
        (scenario_component ''2.0.0''))
     FWUPD_INSTALL_FLAG_FORCE ''1.0.0'' (scenario_release ''2.0.0'') ''2.0.0''
   \<and> reaches_version_lowest_check (scripted (Inr FWUPD_TRUST_FLAG_PAYLOAD))
     (scenario_task ''1.0.0'' ''2.0.0'')
     FWUPD_INSTALL_FLAG_NONE ''1.0.0'' (scenario_release ''2.0.0'') ''2.0.0''
   \<and> fu_device_get_version_lowest (device (scenario_task ''1.0.0'' ''2.0.0'')) = None
   \<and> reaches_version_comparison (scripted (Inr FWUPD_TRUST_FLAG_PAYLOAD))
     (scenario_task ''1.0.0'' ''2.0.0'')
     FWUPD_INSTALL_FLAG_NONE ''1.0.0'' (scenario_release ''2.0.0'') ''2.0.0''"
  using
    version_lowest_floor
      [where ext = "scripted (Inr FWUPD_TRUST_FLAG_PAYLOAD)"
         and self = "fu_install_task_new
            ((scenario_device ''1.0.0'')\<lparr>fu_device_get_version_lowest := Some ''1.2.0''\<rparr>)
            (scenario_component ''2.0.0'')"
         and flags = FWUPD_INSTALL_FLAG_NONE and version = "''1.0.0''"
         and release = "scenario_release ''2.0.0''" and version_release_raw = "''2.0.0''"
         and lowest = "''1.2.0''"]
    version_lowest_floor
      [where ext = "scripted (Inr FWUPD_TRUST_FLAG_PAYLOAD)"
         and self = "fu_install_task_new
            ((scenario_device ''1.0.0'')\<lparr>fu_device_get_version_lowest := Some ''1.2.0''\<rparr>)
            (scenario_component ''2.0.0'')"
         and flags = FWUPD_INSTALL_FLAG_FORCE and version = "''1.0.0''"
         and release = "scenario_release ''2.0.0''" and version_release_raw = "''2.0.0''"
         and lowest = "''1.2.0''"]
    version_lowest_floor
      [where ext = "scripted (Inr FWUPD_TRUST_FLAG_PAYLOAD)"
         and self = "scenario_task ''1.0.0'' ''2.0.0''"
         and flags = FWUPD_INSTALL_FLAG_NONE and version = "''1.0.0''"
         and release = "scenario_release ''2.0.0''" and version_release_raw = "''2.0.0''"
         and lowest = "''1.2.0''"]
  by (simp add: eval_defs comparison_reach_defs FWUPD_INSTALL_FLAG_NONE_def)

subsection \<open>Same version\<close>

text \<open>
  Claim C3, as amended. Take a run that reaches the version comparison with result 0. If
  the device has the ONLY_VERSION_UPGRADE flag, the run fails with NOT_SUPPORTED (the
  device only supports version upgrades), with or without ALLOW_REINSTALL. Otherwise: if
  the install flags lack ALLOW_REINSTALL it fails with VERSION_SAME (already installed),
  and with the same inputs plus ALLOW_REINSTALL it goes past the same-version check and
  on to the verification, with \<open>is_downgrade\<close> false.
\<close>

theorem same_version_guard:
  assumes reach: "reaches_version_comparison ext self flags version release version_release_raw"
    and same: "release_vercmp ext (device self) version version_release_raw = 0"
  shows "if fu_device_has_flag (device self) FWUPD_DEVICE_FLAG_ONLY_VERSION_UPGRADE then
           fu_install_task_check_requirements ext self flags =
             (Inl (g_set_error FWUPD_ERROR_NOT_SUPPORTED
                    ''Device only supports version upgrades''), self) \<and>
           fu_install_task_check_requirements ext self
               (flags OR FWUPD_INSTALL_FLAG_ALLOW_REINSTALL) =
             (Inl (g_set_error FWUPD_ERROR_NOT_SUPPORTED
                    ''Device only supports version upgrades''), self)
         else
           (flags AND FWUPD_INSTALL_FLAG_ALLOW_REINSTALL = 0 \<longrightarrow>
              fu_install_task_check_requirements ext self flags =
                (Inl (g_set_error FWUPD_ERROR_VERSION_SAME
                       (''Specified firmware is already installed ''
                        @ quoted (release_version ext (device self) version_release_raw))),
                 self)) \<and>
           reaches_verify ext self (flags OR FWUPD_INSTALL_FLAG_ALLOW_REINSTALL)
             version release version_release_raw \<and>
           fu_install_task_check_requirements ext self
               (flags OR FWUPD_INSTALL_FLAG_ALLOW_REINSTALL) =
             verify ext (self\<lparr>is_downgrade := False\<rparr>) release"
proof -
  from reach have reach':
    "reaches_version_comparison ext self (flags OR FWUPD_INSTALL_FLAG_ALLOW_REINSTALL)
       version release version_release_raw"
    by (simp add: reaches_version_comparison_or_reinstall)
  show ?thesis
  proof (cases "fu_device_has_flag (device self) FWUPD_DEVICE_FLAG_ONLY_VERSION_UPGRADE")
    case True
    with reach reach' same show ?thesis
      by (simp add: fu_install_task_check_requirements_def comparison_reach_defs
            check_only_version_upgrade_def)
  next
    case False
    have a: "flags AND FWUPD_INSTALL_FLAG_ALLOW_REINSTALL = 0 \<longrightarrow>
              fu_install_task_check_requirements ext self flags =
                (Inl (g_set_error FWUPD_ERROR_VERSION_SAME
                       (''Specified firmware is already installed ''
                        @ quoted (release_version ext (device self) version_release_raw))),
                 self)"
      using reach same False
      by (simp add: fu_install_task_check_requirements_def comparison_reach_defs
            check_only_version_upgrade_def check_version_same_def)
    have b: "reaches_verify ext self (flags OR FWUPD_INSTALL_FLAG_ALLOW_REINSTALL)
             version release version_release_raw"
      using reach' same False
      by (simp add: reaches_verify_def check_only_version_upgrade_def check_version_same_def
            check_downgrade_def flags_or_reinstall)
    have c: "fu_install_task_check_requirements ext self
               (flags OR FWUPD_INSTALL_FLAG_ALLOW_REINSTALL) =
             verify ext (self\<lparr>is_downgrade := False\<rparr>) release"
      using reach' same False
      by (simp add: fu_install_task_check_requirements_def comparison_reach_defs
            check_only_version_upgrade_def check_version_same_def check_downgrade_def
            flags_or_reinstall)
    from False a b c show ?thesis by simp
  qed
qed

theorem same_version_guard_witness:
  "reaches_version_comparison (scripted (Inr FWUPD_TRUST_FLAG_PAYLOAD))
     (scenario_task ''1.0.0'' ''1.0.0'') FWUPD_INSTALL_FLAG_NONE
     ''1.0.0'' (scenario_release ''1.0.0'') ''1.0.0''
   \<and> release_vercmp (scripted (Inr FWUPD_TRUST_FLAG_PAYLOAD))
       (device (scenario_task ''1.0.0'' ''1.0.0'')) ''1.0.0'' ''1.0.0'' = 0
   \<and> \<not> fu_device_has_flag (device (scenario_task ''1.0.0'' ''1.0.0''))
         FWUPD_DEVICE_FLAG_ONLY_VERSION_UPGRADE
   \<and> FWUPD_INSTALL_FLAG_NONE AND FWUPD_INSTALL_FLAG_ALLOW_REINSTALL = 0
   \<and> fst (fu_install_task_check_requirements (scripted (Inr FWUPD_TRUST_FLAG_PAYLOAD))
       (scenario_task ''1.0.0'' ''1.0.0'') FWUPD_INSTALL_FLAG_NONE) =
     Inl \<lparr>code = FWUPD_ERROR FWUPD_ERROR_VERSION_SAME,
          message = ''Specified firmware is already installed '' @ quoted ''1.0.0''\<rparr>
   \<and> fu_install_task_check_requirements (scripted (Inr FWUPD_TRUST_FLAG_PAYLOAD))
       (scenario_task ''1.0.0'' ''1.0.0'')
       (FWUPD_INSTALL_FLAG_NONE OR FWUPD_INSTALL_FLAG_ALLOW_REINSTALL) =
     (Inr (), (scenario_task ''1.0.0'' ''1.0.0'')\<lparr>trust_flags := FWUPD_TRUST_FLAG_PAYLOAD\<rparr>)"
  using
    same_version_guard
      [where ext = "scripted (Inr FWUPD_TRUST_FLAG_PAYLOAD)"
         and self = "scenario_task ''1.0.0'' ''1.0.0''" and flags = FWUPD_INSTALL_FLAG_NONE
         and version = "''1.0.0''" and release = "scenario_release ''1.0.0''"
         and version_release_raw = "''1.0.0''"]
  by (simp add: eval_defs comparison_reach_defs reaches_verify_def FWUPD_INSTALL_FLAG_NONE_def)

text \<open>
  Claim C3 as stated holds whichever device flags are set. With ONLY_VERSION_UPGRADE the
  block of lines 405-412 comes first: the run does not fail with VERSION_SAME, and with
  ALLOW_REINSTALL it does not get past that block either.
\<close>

theorem only_version_upgrade_counterexample:
  "reaches_version_comparison (scripted (Inr FWUPD_TRUST_FLAG_PAYLOAD))
     (fu_install_task_new
        ((scenario_device ''1.0.0'')
           \<lparr>fu_device_get_flags :=
              {FWUPD_DEVICE_FLAG_UPDATABLE, FWUPD_DEVICE_FLAG_ONLY_VERSION_UPGRADE}\<rparr>)
        (scenario_component ''1.0.0''))
     FWUPD_INSTALL_FLAG_NONE ''1.0.0'' (scenario_release ''1.0.0'') ''1.0.0''
   \<and> release_vercmp (scripted (Inr FWUPD_TRUST_FLAG_PAYLOAD))
       ((scenario_device ''1.0.0'')
           \<lparr>fu_device_get_flags :=
              {FWUPD_DEVICE_FLAG_UPDATABLE, FWUPD_DEVICE_FLAG_ONLY_VERSION_UPGRADE}\<rparr>)
       ''1.0.0'' ''1.0.0'' = 0
   \<and> FWUPD_INSTALL_FLAG_NONE AND FWUPD_INSTALL_FLAG_ALLOW_REINSTALL = 0
   \<and> fst (fu_install_task_check_requirements (scripted (Inr FWUPD_TRUST_FLAG_PAYLOAD))
       (fu_install_task_new
          ((scenario_device ''1.0.0'')
             \<lparr>fu_device_get_flags :=
                {FWUPD_DEVICE_FLAG_UPDATABLE, FWUPD_DEVICE_FLAG_ONLY_VERSION_UPGRADE}\<rparr>)
          (scenario_component ''1.0.0''))
       FWUPD_INSTALL_FLAG_NONE) =
     Inl \<lparr>code = FWUPD_ERROR FWUPD_ERROR_NOT_SUPPORTED,
          message = ''Device only supports version upgrades''\<rparr>
   \<and> fst (fu_install_task_check_requirements (scripted (Inr FWUPD_TRUST_FLAG_PAYLOAD))
       (fu_install_task_new
          ((scenario_device ''1.0.0'')
             \<lparr>fu_device_get_flags :=
                {FWUPD_DEVICE_FLAG_UPDATABLE, FWUPD_DEVICE_FLAG_ONLY_VERSION_UPGRADE}\<rparr>)
          (scenario_component ''1.0.0''))
       FWUPD_INSTALL_FLAG_ALLOW_REINSTALL) =
     Inl \<lparr>code = FWUPD_ERROR FWUPD_ERROR_NOT_SUPPORTED,
          message = ''Device only supports version upgrades''\<rparr>"
  by (simp add: eval_defs comparison_reach_defs FWUPD_INSTALL_FLAG_NONE_def)

subsection \<open>Downgrades\<close>

text \<open>
  Claim C10. Whenever fu_install_task_check_requirements answers TRUE and leaves the task
  with \<open>is_downgrade\<close> set, the install flags held ALLOW_OLDER or ALLOW_BRANCH_SWITCH.
\<close>

theorem validated_downgrade_had_flag:
  assumes "fu_install_task_check_requirements ext self flags = (Inr (), self')"
    and "is_downgrade self'"
  shows "flags AND FWUPD_INSTALL_FLAG_ALLOW_OLDER \<noteq> 0 \<or>
         flags AND FWUPD_INSTALL_FLAG_ALLOW_BRANCH_SWITCH \<noteq> 0"
  using assms
  by (auto simp: fu_install_task_check_requirements_def check_downgrade_def verify_def Let_def
           split: sum.splits if_splits prod.splits)

theorem validated_downgrade_had_flag_witness:
  "fu_install_task_check_requirements (scripted (Inr FWUPD_TRUST_FLAG_PAYLOAD))
     (scenario_task ''2.0.0'' ''1.0.0'') FWUPD_INSTALL_FLAG_ALLOW_OLDER
     = (Inr (), (scenario_task ''2.0.0'' ''1.0.0'')
                  \<lparr>trust_flags := FWUPD_TRUST_FLAG_PAYLOAD, is_downgrade := True\<rparr>)
   \<and> is_downgrade ((scenario_task ''2.0.0'' ''1.0.0'')
                  \<lparr>trust_flags := FWUPD_TRUST_FLAG_PAYLOAD, is_downgrade := True\<rparr>)
   \<and> FWUPD_INSTALL_FLAG_ALLOW_OLDER AND FWUPD_INSTALL_FLAG_ALLOW_OLDER \<noteq> 0"
proof -
  have run: "fu_install_task_check_requirements (scripted (Inr FWUPD_TRUST_FLAG_PAYLOAD))
     (scenario_task ''2.0.0'' ''1.0.0'') FWUPD_INSTALL_FLAG_ALLOW_OLDER
     = (Inr (), (scenario_task ''2.0.0'' ''1.0.0'')
                  \<lparr>trust_flags := FWUPD_TRUST_FLAG_PAYLOAD, is_downgrade := True\<rparr>)"
    by (simp add: fu_install_task_check_requirements_def step_defs scenario_defs
          install_flag_defs)
  have down: "is_downgrade ((scenario_task ''2.0.0'' ''1.0.0'')
                  \<lparr>trust_flags := FWUPD_TRUST_FLAG_PAYLOAD, is_downgrade := True\<rparr>)"
    by simp
  from validated_downgrade_had_flag [OF run down] run down show ?thesis
    by (simp add: install_flag_defs)
qed

subsection \<open>Verification\<close>

text \<open>
  Claim C5, as amended. Take a run that reaches the verify block. If the keyring fails
  with NOT_SUPPORTED, fu_install_task_check_requirements still answers TRUE and leaves the
  task's \<open>trust_flags\<close> as they were before the call: empty when they were empty, as on a
  task made by fu_install_task_new, and not cleared otherwise. If the keyring fails with
  any other error, that very error is the answer. If the keyring succeeds, the flags it
  gives are the task's \<open>trust_flags\<close>.
\<close>

theorem trust_evaluation_outcomes:
  assumes "reaches_verify ext self flags version release version_release_raw"
  shows "(fu_keyring_get_release_flags ext release = Inl e \<and>
          code e = FWUPD_ERROR FWUPD_ERROR_NOT_SUPPORTED \<longrightarrow>
            fst (fu_install_task_check_requirements ext self flags) = Inr () \<and>
            trust_flags (snd (fu_install_task_check_requirements ext self flags))
              = trust_flags self \<and>
            (trust_flags self = FWUPD_TRUST_FLAG_NONE \<longrightarrow>
               trust_flags (snd (fu_install_task_check_requirements ext self flags))
                 = FWUPD_TRUST_FLAG_NONE))
   \<and> (fu_keyring_get_release_flags ext release = Inl e \<and>
          code e \<noteq> FWUPD_ERROR FWUPD_ERROR_NOT_SUPPORTED \<longrightarrow>
            fst (fu_install_task_check_requirements ext self flags) = Inl e)
   \<and> (fu_keyring_get_release_flags ext release = Inr tf \<longrightarrow>
            fst (fu_install_task_check_requirements ext self flags) = Inr () \<and>
            trust_flags (snd (fu_install_task_check_requirements ext self flags)) = tf)"
proof -
  from assms have run: "fu_install_task_check_requirements ext self flags =
      verify ext (self\<lparr>is_downgrade :=
         release_vercmp ext (device self) version version_release_raw > 0\<rparr>) release"
    by (auto simp: fu_install_task_check_requirements_def comparison_reach_defs reaches_verify_def check_downgrade_def Let_def
          split: if_splits)
  show ?thesis
    unfolding run by (simp add: verify_def g_error_matches_def)
qed

theorem trust_evaluation_outcomes_witness:
  "reaches_verify
     (scripted (Inl \<lparr>code = FWUPD_ERROR FWUPD_ERROR_NOT_SUPPORTED, message = ''no keyring''\<rparr>))
     (scenario_task ''1.0.0'' ''2.0.0'') FWUPD_INSTALL_FLAG_NONE
     ''1.0.0'' (scenario_release ''2.0.0'') ''2.0.0''
   \<and> fu_install_task_check_requirements
     (scripted (Inl \<lparr>code = FWUPD_ERROR FWUPD_ERROR_NOT_SUPPORTED, message = ''no keyring''\<rparr>))
     (scenario_task ''1.0.0'' ''2.0.0'') FWUPD_INSTALL_FLAG_NONE
     = (Inr (), scenario_task ''1.0.0'' ''2.0.0'')
   \<and> trust_flags (scenario_task ''1.0.0'' ''2.0.0'') = FWUPD_TRUST_FLAG_NONE
   \<and> trust_flags (snd (fu_install_task_check_requirements
     (scripted (Inl \<lparr>code = FWUPD_ERROR FWUPD_ERROR_NOT_SUPPORTED, message = ''no keyring''\<rparr>))
     (scenario_task ''1.0.0'' ''2.0.0'') FWUPD_INSTALL_FLAG_NONE)) = FWUPD_TRUST_FLAG_NONE
   \<and> reaches_verify
     (scripted (Inl \<lparr>code = FOREIGN_ERROR ''g-io-error-quark'' 1, message = ''no such file''\<rparr>))
     (scenario_task ''1.0.0'' ''2.0.0'') FWUPD_INSTALL_FLAG_NONE
     ''1.0.0'' (scenario_release ''2.0.0'') ''2.0.0''
   \<and> fst (fu_install_task_check_requirements
     (scripted (Inl \<lparr>code = FOREIGN_ERROR ''g-io-error-quark'' 1, message = ''no such file''\<rparr>))
     (scenario_task ''1.0.0'' ''2.0.0'') FWUPD_INSTALL_FLAG_NONE)
     = Inl \<lparr>code = FOREIGN_ERROR ''g-io-error-quark'' 1, message = ''no such file''\<rparr>
   \<and> reaches_verify (scripted (Inr FWUPD_TRUST_FLAG_PAYLOAD))
     (scenario_task ''1.0.0'' ''2.0.0'') FWUPD_INSTALL_FLAG_NONE
     ''1.0.0'' (scenario_release ''2.0.0'') ''2.0.0''
   \<and> fu_install_task_check_requirements (scripted (Inr FWUPD_TRUST_FLAG_PAYLOAD))
     (scenario_task ''1.0.0'' ''2.0.0'') FWUPD_INSTALL_FLAG_NONE
     = (Inr (), (scenario_task ''1.0.0'' ''2.0.0'')\<lparr>trust_flags := FWUPD_TRUST_FLAG_PAYLOAD\<rparr>)"
  using
    trust_evaluation_outcomes
      [where ext = "scripted (Inl \<lparr>code = FWUPD_ERROR FWUPD_ERROR_NOT_SUPPORTED,
                                    message = ''no keyring''\<rparr>)"
         and self = "scenario_task ''1.0.0'' ''2.0.0''" and flags = FWUPD_INSTALL_FLAG_NONE
         and version = "''1.0.0''" and release = "scenario_release ''2.0.0''"
         and version_release_raw = "''2.0.0''"
         and e = "\<lparr>code = FWUPD_ERROR FWUPD_ERROR_NOT_SUPPORTED, message = ''no keyring''\<rparr>"]
    trust_evaluation_outcomes
      [where ext = "scripted (Inl \<lparr>code = FOREIGN_ERROR ''g-io-error-quark'' 1,
                                    message = ''no such file''\<rparr>)"
         and self = "scenario_task ''1.0.0'' ''2.0.0''" and flags = FWUPD_INSTALL_FLAG_NONE
         and version = "''1.0.0''" and release = "scenario_release ''2.0.0''"
         and version_release_raw = "''2.0.0''"
         and e = "\<lparr>code = FOREIGN_ERROR ''g-io-error-quark'' 1, message = ''no such file''\<rparr>"]
    trust_evaluation_outcomes
      [where ext = "scripted (Inr FWUPD_TRUST_FLAG_PAYLOAD)"
         and self = "scenario_task ''1.0.0'' ''2.0.0''" and flags = FWUPD_INSTALL_FLAG_NONE
         and version = "''1.0.0''" and release = "scenario_release ''2.0.0''"
         and version_release_raw = "''2.0.0''" and tf = FWUPD_TRUST_FLAG_PAYLOAD]
  by (simp add: eval_defs comparison_reach_defs reaches_verify_def FWUPD_INSTALL_FLAG_NONE_def)

text \<open>
  Claim C5 as stated has the trust flags empty after every run in which the keyring
  fails with NOT_SUPPORTED. Lines 434-438 store nothing and clear nothing, so a task that
  holds the payload bit from an earlier successful run keeps it: the run below answers
  TRUE with the bit still set.
\<close>

theorem stale_trust_flags_counterexample:
  "reaches_verify
     (scripted (Inl \<lparr>code = FWUPD_ERROR FWUPD_ERROR_NOT_SUPPORTED, message = ''no keyring''\<rparr>))
     ((scenario_task ''1.0.0'' ''2.0.0'')\<lparr>trust_flags := FWUPD_TRUST_FLAG_PAYLOAD\<rparr>)
     FWUPD_INSTALL_FLAG_NONE ''1.0.0'' (scenario_release ''2.0.0'') ''2.0.0''
   \<and> fu_keyring_get_release_flags
       (scripted (Inl \<lparr>code = FWUPD_ERROR FWUPD_ERROR_NOT_SUPPORTED,
                        message = ''no keyring''\<rparr>))
       (scenario_release ''2.0.0'')
     = Inl \<lparr>code = FWUPD_ERROR FWUPD_ERROR_NOT_SUPPORTED, message = ''no keyring''\<rparr>
   \<and> fu_install_task_check_requirements (scripted (Inr FWUPD_TRUST_FLAG_PAYLOAD))
       (scenario_task ''1.0.0'' ''2.0.0'') FWUPD_INSTALL_FLAG_NONE
     = (Inr (), (scenario_task ''1.0.0'' ''2.0.0'')\<lparr>trust_flags := FWUPD_TRUST_FLAG_PAYLOAD\<rparr>)
   \<and> fu_install_task_check_requirements
       (scripted (Inl \<lparr>code = FWUPD_ERROR FWUPD_ERROR_NOT_SUPPORTED,
                        message = ''no keyring''\<rparr>))
       ((scenario_task ''1.0.0'' ''2.0.0'')\<lparr>trust_flags := FWUPD_TRUST_FLAG_PAYLOAD\<rparr>)
       FWUPD_INSTALL_FLAG_NONE
     = (Inr (), (scenario_task ''1.0.0'' ''2.0.0'')\<lparr>trust_flags := FWUPD_TRUST_FLAG_PAYLOAD\<rparr>)
   \<and> trust_flags ((scenario_task ''1.0.0'' ''2.0.0'')\<lparr>trust_flags := FWUPD_TRUST_FLAG_PAYLOAD\<rparr>)
       AND FWUPD_TRUST_FLAG_PAYLOAD \<noteq> 0
   \<and> trust_flags ((scenario_task ''1.0.0'' ''2.0.0'')\<lparr>trust_flags := FWUPD_TRUST_FLAG_PAYLOAD\<rparr>)
       \<noteq> FWUPD_TRUST_FLAG_NONE"
  by (simp add: eval_defs comparison_reach_defs reaches_verify_def FWUPD_INSTALL_FLAG_NONE_def)

subsection \<open>The task after a failed run\<close>

text \<open>A failed run never changes \<open>trust_flags\<close>.\<close>

lemma failed_run_keeps_trust_flags:
  assumes "fu_install_task_check_requirements ext self flags = (Inl e, self')"
  shows "trust_flags self' = trust_flags self"
  using assms
  by (auto simp: fu_install_task_check_requirements_def check_downgrade_def verify_def Let_def
           split: sum.splits if_splits prod.splits)

text \<open>
  Claim C1 says that a failed run leaves \<open>trust_flags\<close> and \<open>is_downgrade\<close> as they were,
  as the notes on the two getters do (set only after a successful call). For
  \<open>is_downgrade\<close> the code does otherwise: line 421 assigns the field before the check of
  lines 422-431, so the run below, an older release offered with no flag, fails with
  VERSION_NEWER and leaves \<open>is_downgrade\<close> set on a task where it was not.
\<close>

theorem is_downgrade_set_on_failed_run:
  "\<not> is_downgrade (scenario_task ''2.0.0'' ''1.0.0'')
   \<and> fu_install_task_check_requirements (scripted (Inr FWUPD_TRUST_FLAG_PAYLOAD))
       (scenario_task ''2.0.0'' ''1.0.0'') FWUPD_INSTALL_FLAG_NONE =
     (Inl \<lparr>code = FWUPD_ERROR FWUPD_ERROR_VERSION_NEWER,
           message = ''Specified firmware is older than installed '' @ quoted ''1.0.0 < 2.0.0''\<rparr>,
      (scenario_task ''2.0.0'' ''1.0.0'')\<lparr>is_downgrade := True\<rparr>)"
  by (simp add: fu_install_task_check_requirements_def step_defs scenario_defs
        install_flag_defs FWUPD_INSTALL_FLAG_NONE_def)

section \<open>The authorization tier and the task order\<close>

text \<open>
  Claim C8. The authorization-tier resolver is a function of three facts only: whether the
  device has the INTERNAL flag, \<open>is_downgrade\<close>, and whether \<open>trust_flags\<close> contains the
  payload-trusted bit. It answers the identifier of the tier that the table of spec
  section 4.4 gives for these facts; the six identifiers are pairwise different; and for
  a downgrade the trust flags do not matter.
\<close>

theorem action_id_follows_tier_table:
  "fu_install_task_get_action_id self =
     tier_id (tier_table (fu_device_has_flag (device self) FWUPD_DEVICE_FLAG_INTERNAL)
                (is_downgrade self)
                (trust_flags self AND FWUPD_TRUST_FLAG_PAYLOAD \<noteq> 0))
   \<and> fu_install_task_get_action_id (self\<lparr>is_downgrade := True, trust_flags := tf\<rparr>) =
       fu_install_task_get_action_id (self\<lparr>is_downgrade := True\<rparr>)
   \<and> distinct (map tier_id [Downgrade_hotplug, Update_hotplug_trusted, Update_hotplug,
                  Downgrade_internal, Update_internal_trusted, Update_internal])"
proof (intro conjI)
  show "fu_install_task_get_action_id self =
     tier_id (tier_table (fu_device_has_flag (device self) FWUPD_DEVICE_FLAG_INTERNAL)
                (is_downgrade self)
                (trust_flags self AND FWUPD_TRUST_FLAG_PAYLOAD \<noteq> 0))"
    by (simp add: fu_install_task_get_action_id_def)
  show "fu_install_task_get_action_id (self\<lparr>is_downgrade := True, trust_flags := tf\<rparr>) =
       fu_install_task_get_action_id (self\<lparr>is_downgrade := True\<rparr>)"
    by (simp add: fu_install_task_get_action_id_def)
  show "distinct (map tier_id [Downgrade_hotplug, Update_hotplug_trusted, Update_hotplug,
                  Downgrade_internal, Update_internal_trusted, Update_internal])"
    by simp
qed

text \<open>
  Claim C9. The task comparator answers -1, 0 or 1 exactly as the order of the first
  task's device is less than, equal to or greater than the order of the second's, and
  looks at nothing else. Read as "the first comes no later than the second" it is a total
  preorder: reflexive, total and transitive; swapping the arguments negates the answer.
\<close>

theorem compare_is_order_of_devices:
  "(fu_install_task_compare a b = - 1 \<longleftrightarrow>
      fu_device_get_order (device a) < fu_device_get_order (device b))
   \<and> (fu_install_task_compare a b = 0 \<longleftrightarrow>
      fu_device_get_order (device a) = fu_device_get_order (device b))
   \<and> (fu_install_task_compare a b = 1 \<longleftrightarrow>
      fu_device_get_order (device a) > fu_device_get_order (device b))
   \<and> fu_install_task_compare a b \<in> {- 1, 0, 1}
   \<and> fu_install_task_compare a a \<le> 0
   \<and> (fu_install_task_compare a b \<le> 0 \<or> fu_install_task_compare b a \<le> 0)
   \<and> (fu_install_task_compare a b \<le> 0 \<and> fu_install_task_compare b c \<le> 0
        \<longrightarrow> fu_install_task_compare a c \<le> 0)
   \<and> fu_install_task_compare b a = - fu_install_task_compare a b"
  by (auto simp: fu_install_task_compare_def Let_def)

theorem compare_is_order_of_devices_witness:
  "fu_install_task_compare
     (fu_install_task_new ((scenario_device ''1.0.0'')\<lparr>fu_device_get_order := 1\<rparr>)
        (scenario_component ''2.0.0''))
     (fu_install_task_new ((scenario_device ''3.1'')\<lparr>fu_device_get_order := 1\<rparr>)
        (scenario_component ''3.0'')) \<le> 0
   \<and> fu_install_task_compare
     (fu_install_task_new ((scenario_device ''3.1'')\<lparr>fu_device_get_order := 1\<rparr>)
        (scenario_component ''3.0''))
     (fu_install_task_new ((scenario_device ''1.0.0'')\<lparr>fu_device_get_order := 5\<rparr>)
        (scenario_component ''2.0.0'')) \<le> 0
   \<and> fu_install_task_compare
     (fu_install_task_new ((scenario_device ''1.0.0'')\<lparr>fu_device_get_order := 1\<rparr>)
        (scenario_component ''2.0.0''))
     (fu_install_task_new ((scenario_device ''1.0.0'')\<lparr>fu_device_get_order := 5\<rparr>)
        (scenario_component ''2.0.0'')) = - 1
   \<and> fu_install_task_compare
     (fu_install_task_new ((scenario_device ''1.0.0'')\<lparr>fu_device_get_order := 1\<rparr>)
        (scenario_component ''2.0.0''))
     (fu_install_task_new ((scenario_device ''3.1'')\<lparr>fu_device_get_order := 1\<rparr>)
        (scenario_component ''3.0'')) = 0"
  using compare_is_order_of_devices
    [where a = "fu_install_task_new ((scenario_device ''1.0.0'')\<lparr>fu_device_get_order := 1\<rparr>)
                  (scenario_component ''2.0.0'')"
       and b = "fu_install_task_new ((scenario_device ''3.1'')\<lparr>fu_device_get_order := 1\<rparr>)
                  (scenario_component ''3.0'')"
       and c = "fu_install_task_new ((scenario_device ''1.0.0'')\<lparr>fu_device_get_order := 5\<rparr>)
                  (scenario_component ''2.0.0'')"]
  by (simp add: fu_install_task_compare_def fu_install_task_new_def scenario_device_def)

end
